theory Spec2Isabelle
  imports Main "HOL-Library.Word" "HOL-Library.Sublist"
begin

unbundle bit_operations_syntax

section \<open>The station: registration ingest (application/main.go)\<close>

type_synonym byte = "8 word"

subsection \<open>The byte reader of the standard library\<close>

text \<open>
  \<^verbatim>\<open>bytes.Reader\<close> holds the slice and the read position. \<^verbatim>\<open>Read(b)\<close> at the end of the
  slice copies nothing and reports EOF; otherwise it copies
  \<^verbatim>\<open>n = copy(b, s[i:])\<close> bytes, that is the smaller of \<^verbatim>\<open>len(b)\<close> and of what remains,
  to the front of \<^verbatim>\<open>b\<close>, leaves the rest of \<^verbatim>\<open>b\<close> as it was, and advances by \<^verbatim>\<open>n\<close>.
  The model returns the reader, the buffer, the count and the EOF flag.
\<close>

record Reader =
  rd_s :: "byte list"
  rd_i :: nat

definition NewReader :: "byte list \<Rightarrow> Reader" where
  "NewReader b = \<lparr>rd_s = b, rd_i = 0\<rparr>"

definition Read :: "Reader \<Rightarrow> byte list \<Rightarrow> Reader \<times> byte list \<times> nat \<times> bool" where
  "Read r b =
     (if length (rd_s r) \<le> rd_i r then (r, b, 0, True)
      else
        let n = min (length b) (length (rd_s r) - rd_i r)
        in (r\<lparr>rd_i := rd_i r + n\<rparr>, take n (drop (rd_i r) (rd_s r)) @ drop n b, n, False))"

text \<open>\<^verbatim>\<open>binary.BigEndian.Uint16(b)\<close> is \<^verbatim>\<open>uint16(b[1]) | uint16(b[0])<<8\<close>.\<close>

definition BigEndian_Uint16 :: "byte list \<Rightarrow> 16 word" where
  "BigEndian_Uint16 b = (ucast (b ! 1) :: 16 word) OR push_bit 8 (ucast (b ! 0) :: 16 word)"

subsection \<open>Decoding one message\<close>

text \<open>
  The errors \<^verbatim>\<open>recieve_zmq_message\<close> returns: the error of the socket, and the
  \<^verbatim>\<open>short message of size n\<close> error of the length check.
\<close>

datatype 'e DecodeError = RecvError 'e | ShortMessage nat

text \<open>
  \<^verbatim>\<open>recieve_zmq_message\<close>, lines 98 to 132 (the statements after the \<^verbatim>\<open>return\<close> of line 132
  are never run). The result of \<^verbatim>\<open>sub.RecvBytes(0)\<close> is the last argument. The first three
  arguments are what the function calls outside this file: the decoder of the structured record
  (\<^verbatim>\<open>proto.unmarshal\<close>, its error is discarded), \<^verbatim>\<open>dd.generateKeys\<close> (its error is
  discarded too) and \<^verbatim>\<open>regManager.NewRegistration\<close>, which returns a pointer, so \<open>None\<close>
  is \<^verbatim>\<open>nil\<close>. The arrays start zeroed; the count and the error of every \<^verbatim>\<open>Read\<close> are dropped,
  as in the source.
\<close>

definition recieve_zmq_message ::
  "(byte list \<Rightarrow> 'c) \<Rightarrow> (byte list \<Rightarrow> 'k) \<Rightarrow> ('c \<Rightarrow> 'k \<Rightarrow> byte list \<Rightarrow> 'r option)
     \<Rightarrow> 'e + byte list \<Rightarrow> 'e DecodeError + 'r option" where
  "recieve_zmq_message unmarshal generateKeys NewRegistration recv =
     (case recv of
        Inl err \<Rightarrow> Inl (RecvError err)
      | Inr msg \<Rightarrow>
          if length msg < 32 + 6 + 1 + 16 then Inl (ShortMessage (length msg))
          else
            let sharedSecret0 = replicate 32 (0 :: byte);
                fixedSizePayload0 = replicate 6 (0 :: byte);
                flags = replicate 1 (0 :: byte);
                msgReader0 = NewReader msg;
                (msgReader1, sharedSecret1, _, _) = Read msgReader0 sharedSecret0;
                (msgReader2, fixedSizePayload, _, _) = Read msgReader1 fixedSizePayload0;
                (msgReader3, sharedSecret, _, _) = Read msgReader2 sharedSecret1;
                vspSize = BigEndian_Uint16 (take 2 fixedSizePayload);
                clientToStationBytes0 = replicate (unat vspSize) (0 :: byte);
                (msgReader4, clientToStationBytes, _, _) = Read msgReader3 clientToStationBytes0;
                clientToStation = unmarshal clientToStationBytes;
                conjureKeys = generateKeys sharedSecret;
                newReg = NewRegistration clientToStation conjureKeys flags
            in Inr newReg)"

subsection \<open>The registration table\<close>

text \<open>
  Modelled from the spec: the registration table of \<^verbatim>\<open>RegistrationManager\<close> (package
  \<^verbatim>\<open>lib\<close>, not part of the two files). The table is the list of the live registrations in the
  order of their insertion, and \<open>phantomAddress\<close> reads the phantom address of a registration. The
  glossary defines liveness as "whether a phantom address currently has an active, unexpired
  registration"; no registration expires between the messages considered here.
\<close>

definition PhantomIsLive :: "('r \<Rightarrow> 'a) \<Rightarrow> 'r list \<Rightarrow> 'r \<Rightarrow> bool" where
  "PhantomIsLive phantomAddress table reg = (phantomAddress reg \<in> set (map phantomAddress table))"

text \<open>
  Modelled from the spec: \<^verbatim>\<open>addRegistration(reg) -> bool\<close> "inserts iff no live registration
  currently owns \<^verbatim>\<open>reg.phantomAddress\<close>; returns whether insertion occurred".
\<close>

definition AddRegistration :: "('r \<Rightarrow> 'a) \<Rightarrow> 'r list \<Rightarrow> 'r \<Rightarrow> 'r list \<times> bool" where
  "AddRegistration phantomAddress table reg =
     (if phantomAddress reg \<in> set (map phantomAddress table) then (table, False)
      else (table @ [reg], True))"

subsection \<open>The ingest loop\<close>

text \<open>
  One turn of the \<^verbatim>\<open>for\<close> loop of \<^verbatim>\<open>get_zmq_updates\<close> (lines 78 to 90) on the table:
  \<^verbatim>\<open>continue\<close> on an error or a \<^verbatim>\<open>nil\<close> registration, otherwise
  \<^verbatim>\<open>AddRegistration\<close> under the guard \<^verbatim>\<open>!newReg.PhantomIsLive()\<close>. The two methods of the
  registration manager are the arguments \<open>isLive\<close> and \<open>add\<close>; \<open>decode\<close> is
  \<^verbatim>\<open>recieve_zmq_message\<close> with its three callees fixed. The lines written to the logger are
  left out.
\<close>

definition get_zmq_updates_step ::
  "('t \<Rightarrow> 'r \<Rightarrow> bool) \<Rightarrow> ('t \<Rightarrow> 'r \<Rightarrow> 't \<times> bool) \<Rightarrow> ('m \<Rightarrow> 'x + 'r option) \<Rightarrow> 't \<Rightarrow> 'm \<Rightarrow> 't" where
  "get_zmq_updates_step isLive add decode table recv =
     (case decode recv of
        Inl err \<Rightarrow> table
      | Inr None \<Rightarrow> table
      | Inr (Some newReg) \<Rightarrow>
          if \<not> isLive table newReg then fst (add table newReg) else table)"

text \<open>The loop on the messages the socket delivers, in their order.\<close>

definition get_zmq_updates ::
  "('t \<Rightarrow> 'r \<Rightarrow> bool) \<Rightarrow> ('t \<Rightarrow> 'r \<Rightarrow> 't \<times> bool) \<Rightarrow> ('m \<Rightarrow> 'x + 'r option) \<Rightarrow> 't \<Rightarrow> 'm list \<Rightarrow> 't" where
  "get_zmq_updates isLive add decode table recvs =
     foldl (get_zmq_updates_step isLive add decode) table recvs"

text \<open>The loop with the table of the specification and the decoder of the source.\<close>

definition ingest ::
  "('r \<Rightarrow> 'a) \<Rightarrow> (byte list \<Rightarrow> 'c) \<Rightarrow> (byte list \<Rightarrow> 'k) \<Rightarrow> ('c \<Rightarrow> 'k \<Rightarrow> byte list \<Rightarrow> 'r option)
     \<Rightarrow> 'r list \<Rightarrow> ('e + byte list) list \<Rightarrow> 'r list" where
  "ingest phantomAddress unmarshal generateKeys NewRegistration table recvs =
     get_zmq_updates (PhantomIsLive phantomAddress) (AddRegistration phantomAddress)
       (recieve_zmq_message unmarshal generateKeys NewRegistration) table recvs"

section \<open>The station: dispatching an accepted connection (application/main.go)\<close>

text \<open>
  \<^verbatim>\<open>getOriginalDst\<close>: the two socket options are read in turn. The arguments are the results
  of the two system calls on the descriptor: the 16 bytes of \<^verbatim>\<open>Multiaddr\<close>, of which bytes 4
  to 7 hold the IPv4 address, and the 16 bytes of \<^verbatim>\<open>Addr.Addr\<close>. \<^verbatim>\<open>net.IPv4\<close> returns the
  16-byte form of the address, after the prefix of an IPv4 address mapped into IPv6.
\<close>

definition IPv4 :: "byte \<Rightarrow> byte \<Rightarrow> byte \<Rightarrow> byte \<Rightarrow> byte list" where
  "IPv4 a b c d = [0, 0, 0, 0, 0, 0, 0, 0, 0, 0, 0xff, 0xff, a, b, c, d]"




section \<open>The detector (application/detector/main.go)\<close>

subsection \<open>Captured frames\<close>

text \<open>
  What \<^verbatim>\<open>handlePacket\<close> reads of a \<^verbatim>\<open>gopacket.Packet\<close>. An endpoint has its raw bytes and
  the text \<^verbatim>\<open>String()\<close> renders. \<^verbatim>\<open>NetworkLayer()\<close>, \<^verbatim>\<open>Layer(layers.LayerTypeTCP)\<close> and
  \<^verbatim>\<open>ApplicationLayer()\<close> return \<^verbatim>\<open>nil\<close> when the frame has no such layer: \<open>None\<close>. Of the
  network layer only its flow is read, of the TCP layer its destination port, of the
  application layer its payload. A payload is a list of bytes, as a string is.
\<close>

record Endpoint =
  Raw :: "byte list"
  String :: string

record Flow =
  Src :: Endpoint
  Dst :: Endpoint

record TCP =
  DstPort :: "16 word"

record Packet =
  NetworkLayer :: "Flow option"
  Layer_TCP :: "TCP option"
  ApplicationLayer :: "string option"
  CaptureLength :: int

subsection \<open>The detector\<close>

text \<open>
  Modelled from the spec: \<^verbatim>\<open>DetectorStats\<close>, whose declaration is outside the file:
  "counters (byte total, v4/v6 packet counts)". \<^verbatim>\<open>handlePacket\<close> adds a \<^verbatim>\<open>uint64\<close> to the
  byte total and increments the two packet counters, which are taken as 64-bit counters too.
\<close>

record DetectorStats =
  BytesTotal :: "64 word"
  V4PacketCount :: "64 word"
  V6PacketCount :: "64 word"

text \<open>
  The arguments of the callback \<^verbatim>\<open>IsRegistered func(src, dst string, dstPort uint16) bool\<close>,
  under the names of its declaration: a call binds its first argument to \<open>arg_src\<close>, its
  second to \<open>arg_dst\<close> and its third to \<open>arg_dstPort\<close>.
\<close>

record IsRegisteredArgs =
  arg_src :: string
  arg_dst :: string
  arg_dstPort :: "16 word"

datatype LogEntry = Warn string | Println "string list"

text \<open>
  The fields of \<^verbatim>\<open>Detector\<close> that \<^verbatim>\<open>handlePacket\<close> uses. \<open>stats\<close> is the record the
  pointer refers to, and \<open>Logger\<close> is what has been written to the logger so far.
\<close>

record Detector =
  Tags :: "string list"
  IsRegistered :: "IsRegisteredArgs \<Rightarrow> bool"
  Logger :: "LogEntry list"
  stats :: DetectorStats

text \<open>
  A call either returns or panics (a method called on a \<^verbatim>\<open>nil\<close> layer); what it wrote
  before a panic stays written.
\<close>

datatype Outcome = Returned | Panicked

text \<open>\<^verbatim>\<open>checkForTags\<close>: the loop over the tags, each turn reading the payload anew.\<close>

fun checkForTags_loop :: "string list \<Rightarrow> Detector \<Rightarrow> Packet \<Rightarrow> Outcome \<times> Detector" where
  "checkForTags_loop [] det packet = (Returned, det)"
| "checkForTags_loop (tag # tags) det packet =
     (case ApplicationLayer packet of
        None \<Rightarrow> (Panicked, det)
      | Some Payload \<Rightarrow>
          if sublist tag Payload then
            (case NetworkLayer packet of
               None \<Rightarrow> (Panicked, det)
             | Some flow \<Rightarrow>
                 checkForTags_loop tags
                   (det\<lparr>Logger := Logger det @
                      [Println [''confirmed'', String (Src flow), ''->'', String (Dst flow)]]\<rparr>)
                   packet)
          else checkForTags_loop tags det packet)"

definition checkForTags :: "Detector \<Rightarrow> Packet \<Rightarrow> Outcome \<times> Detector" where
  "checkForTags det packet = checkForTags_loop (Tags det) det packet"

definition forwardPacket :: "Detector \<Rightarrow> Packet \<Rightarrow> Outcome \<times> Detector" where
  "forwardPacket det packet =
     (case NetworkLayer packet of
        None \<Rightarrow> (Panicked, det)
      | Some flow \<Rightarrow>
          (Returned, det\<lparr>Logger := Logger det @
             [Println [String (Src flow), ''->'', String (Dst flow)]]\<rparr>))"

text \<open>
  The \<^verbatim>\<open>switch\<close> of \<^verbatim>\<open>handlePacket\<close> on the length of the destination address, after the
  byte total has been updated (lines 96 to 104).
\<close>

definition classify :: "Detector \<Rightarrow> Packet \<Rightarrow> Endpoint \<Rightarrow> Detector" where
  "classify det packet dst =
     (let det1 = det\<lparr>stats := (stats det)\<lparr>BytesTotal :=
                   BytesTotal (stats det) + word_of_int (CaptureLength packet)\<rparr>\<rparr>
      in if length (Raw dst) = 4 then
           det1\<lparr>stats := (stats det1)\<lparr>V4PacketCount := V4PacketCount (stats det1) + 1\<rparr>\<rparr>
         else if length (Raw dst) = 16 then
           det1\<lparr>stats := (stats det1)\<lparr>V6PacketCount := V6PacketCount (stats det1) + 1\<rparr>\<rparr>
         else det1\<lparr>Logger := Logger det1 @ [Warn ''IP is not valid as IPv4 or IPv6'']\<rparr>)"

text \<open>
  \<^verbatim>\<open>handlePacket\<close>: the flow of the network layer is read first (lines 92 and 93), then the
  counters are updated, a frame without a TCP layer returns, and the others go through the
  tag scan and the match check. The callback gets \<^verbatim>\<open>dst.String()\<close> as its first argument
  and \<^verbatim>\<open>src.String()\<close> as its second (line 115).
\<close>

definition handlePacket :: "Detector \<Rightarrow> Packet \<Rightarrow> Outcome \<times> Detector" where
  "handlePacket det packet =
     (case NetworkLayer packet of
        None \<Rightarrow> (Panicked, det)
      | Some flow \<Rightarrow>
          let dst_e = Dst flow;
              src_e = Src flow;
              det1 = classify det packet dst_e
          in (case Layer_TCP packet of
                None \<Rightarrow> (Returned, det1)
              | Some tcp \<Rightarrow>
                  let dstPort = DstPort tcp
                  in (case checkForTags det1 packet of
                        (Panicked, det2) \<Rightarrow> (Panicked, det2)
                      | (Returned, det2) \<Rightarrow>
                          if IsRegistered det2
                               \<lparr>arg_src = String dst_e, arg_dst = String src_e, arg_dstPort = dstPort\<rparr>
                          then forwardPacket det2 packet
                          else (Returned, det2))))"

text \<open>
  The capture loop of \<^verbatim>\<open>Run\<close> (lines 71 to 73) on the frames the source delivers: a panic
  in \<^verbatim>\<open>handlePacket\<close> ends it, and the frames after it are never handled.
\<close>

fun Run_loop :: "Detector \<Rightarrow> Packet list \<Rightarrow> Outcome \<times> Detector" where
  "Run_loop det [] = (Returned, det)"
| "Run_loop det (packet # packets) =
     (case handlePacket det packet of
        (Panicked, det') \<Rightarrow> (Panicked, det')
      | (Returned, det') \<Rightarrow> Run_loop det' packets)"

subsection \<open>The capture filter\<close>

text \<open>
  \<^verbatim>\<open>generateFilters\<close>: the empty string for the empty list; otherwise the loop appends one
  clause for every entry after the first to the clause of the first.
\<close>

definition generateFilters :: "string list \<Rightarrow> string" where
  "generateFilters filterList =
     (if length filterList = 0 then ''''
      else foldl (\<lambda>out entry. out @ '' and not src '' @ entry)
             (''tcp and not src '' @ filterList ! 0) (drop 1 filterList))"

section \<open>Example inputs\<close>

text \<open>
  A registration that records the three arguments \<^verbatim>\<open>NewRegistration\<close> was given (the decoded
  record, the keys, the flags). With the identity for the record decoder and for the key
  derivation, the result of \<^verbatim>\<open>recieve_zmq_message\<close> shows the bytes each of them received.
  Its phantom address is taken from the keys.
\<close>

type_synonym example_registration = "byte list \<times> byte list \<times> byte list"

definition example_NewRegistration ::
  "byte list \<Rightarrow> byte list \<Rightarrow> byte list \<Rightarrow> example_registration option" where
  "example_NewRegistration clientToStation conjureKeys flags =
     Some (clientToStation, conjureKeys, flags)"

definition example_phantomAddress :: "example_registration \<Rightarrow> byte list" where
  "example_phantomAddress reg = fst (snd reg)"

text \<open>
  A message of 55 bytes: the secret 1 to 32, a fixed block that declares a payload of 4
  bytes, the flags byte 7, and 16 more bytes of which the first four are the payload.
\<close>

definition example_message :: "byte list" where
  "example_message =
     [1, 2, 3, 4, 5, 6, 7, 8, 9, 10, 11, 12, 13, 14, 15, 16,
      17, 18, 19, 20, 21, 22, 23, 24, 25, 26, 27, 28, 29, 30, 31, 32]
     @ [0, 4, 0, 0, 0, 0] @ [7]
     @ [101, 102, 103, 104, 9, 9, 9, 9, 9, 9, 9, 9, 9, 9, 9, 9]"

text \<open>A message of 55 bytes whose fixed block declares a payload of 20 bytes; 16 follow the flags.\<close>

definition overlong_message :: "byte list" where
  "overlong_message = replicate 32 0 @ [0, 20, 0, 0, 0, 0] @ [0] @ replicate 16 1"

definition zero_message :: "unit + byte list" where
  "zero_message = Inr (replicate 55 0)"

definition zero_registration :: example_registration where
  "zero_registration = ([], replicate 32 0, [0])"





text \<open>
  A detector with one tag, whose callback answers whether its declared destination is the
  registered phantom address 10.0.0.5; and frames from the client 192.0.2.7 to that address:
  one without a network layer, a TCP segment without payload, a TCP segment with payload,
  and a frame whose addresses have six bytes.
\<close>

definition example_detector :: Detector where
  "example_detector =
     \<lparr>Tags = [''tag''], IsRegistered = (\<lambda>a. arg_dst a = ''10.0.0.5''), Logger = [],
      stats = \<lparr>BytesTotal = 0, V4PacketCount = 0, V6PacketCount = 0\<rparr>\<rparr>"

definition example_flow :: Flow where
  "example_flow =
     \<lparr>Src = \<lparr>Raw = [192, 0, 2, 7], String = ''192.0.2.7''\<rparr>,
      Dst = \<lparr>Raw = [10, 0, 0, 5], String = ''10.0.0.5''\<rparr>\<rparr>"

definition arp_frame :: Packet where
  "arp_frame =
     \<lparr>NetworkLayer = None, Layer_TCP = None, ApplicationLayer = None, CaptureLength = 42\<rparr>"

definition syn_frame :: Packet where
  "syn_frame =
     \<lparr>NetworkLayer = Some example_flow, Layer_TCP = Some \<lparr>DstPort = 443\<rparr>,
      ApplicationLayer = None, CaptureLength = 60\<rparr>"

definition data_frame :: Packet where
  "data_frame =
     \<lparr>NetworkLayer = Some example_flow, Layer_TCP = Some \<lparr>DstPort = 443\<rparr>,
      ApplicationLayer = Some ''a tag here'', CaptureLength = 76\<rparr>"

definition odd_flow :: Flow where
  "odd_flow =
     \<lparr>Src = \<lparr>Raw = [1, 2, 3, 4, 5, 6], String = ''01:02:03:04:05:06''\<rparr>,
      Dst = \<lparr>Raw = [7, 8, 9, 10, 11, 12], String = ''07:08:09:0a:0b:0c''\<rparr>\<rparr>"

definition odd_frame :: Packet where
  "odd_frame =
     \<lparr>NetworkLayer = Some odd_flow, Layer_TCP = Some \<lparr>DstPort = 443\<rparr>,
      ApplicationLayer = Some ''hello'', CaptureLength = 70\<rparr>"

lemmas example_frames = example_detector_def example_flow_def arp_frame_def syn_frame_def
  data_frame_def odd_flow_def odd_frame_def

section \<open>Properties of the ingest path\<close>

subsection \<open>The reader and the length check\<close>

lemma Read_in_bounds:
  "rd_i r \<le> length (rd_s r) \<Longrightarrow>
   rd_s (fst (Read r b)) = rd_s r \<and> rd_i r \<le> rd_i (fst (Read r b)) \<and>
   rd_i (fst (Read r b)) \<le> length (rd_s r) \<and>
   length (fst (snd (Read r b))) = length b"
  by (auto simp: Read_def Let_def min_def)

lemma decode_short:
  "length msg < 55 \<Longrightarrow>
   recieve_zmq_message u g n (Inr msg) = Inl (ShortMessage (length msg))"
  by (simp add: recieve_zmq_message_def)

lemma decode_long:
  "\<not> length msg < 55 \<Longrightarrow> isl (recieve_zmq_message u g n (Inr msg)) = False"
  by (simp add: recieve_zmq_message_def Let_def split: prod.splits)

text \<open>
  C1. The claim: the shared secret is the first 32 bytes, the flags byte is the byte after
  the fixed block, and the keys are derived from that secret. On \<open>example_message\<close> the code
  hands \<^verbatim>\<open>generateKeys\<close> the flags byte and the 16 bytes after it followed by bytes 18 to 32
  of the secret, and hands \<^verbatim>\<open>NewRegistration\<close> the flags \<open>[0]\<close>, not \<open>[7]\<close>: the third
  \<^verbatim>\<open>Read\<close> (line 116) fills \<^verbatim>\<open>sharedSecret\<close> a second time where the flags were to be read,
  and the payload is read from what is left after it (nothing here).
\<close>

theorem decode_overwrites_secret:
  "recieve_zmq_message id id example_NewRegistration (Inr example_message :: unit + byte list) =
     Inr (Some ([0, 0, 0, 0],
                [7, 101, 102, 103, 104, 9, 9, 9, 9, 9, 9, 9, 9, 9, 9, 9,
                 9, 18, 19, 20, 21, 22, 23, 24, 25, 26, 27, 28, 29, 30, 31, 32],
                [0]))"
  unfolding example_message_def example_NewRegistration_def by code_simp

text \<open>
  C3. The claim: a declared payload length beyond the bytes that remain gives
  \<open>ShortMessage\<close>. On \<open>overlong_message\<close>, which declares 20 bytes where 16 follow the flags
  byte, the code returns a registration built from a payload of 20 zero bytes: the payload
  buffer is allocated from the declared length and the short \<^verbatim>\<open>Read\<close> into it is not
  checked.
\<close>

theorem decode_accepts_overlong_length:
  "recieve_zmq_message id id example_NewRegistration (Inr overlong_message :: unit + byte list) =
     Inr (Some (replicate 20 0, [0] @ replicate 16 1 @ replicate 15 0, [0]))"
  unfolding overlong_message_def example_NewRegistration_def by code_simp

text \<open>
  C6, as the claim states it, fails: a message of 39 bytes is at least \<open>32 + 6 + 1\<close> bytes
  long and the length check rejects it.
\<close>

theorem length_check_rejects_39_bytes:
  "39 \<le> length (replicate 39 (0 :: byte)) \<and>
   recieve_zmq_message id id example_NewRegistration
       (Inr (replicate 39 0) :: unit + byte list) =
     Inl (ShortMessage 39)"
  by (simp add: recieve_zmq_message_def)

text \<open>
  C6, amended. The length check of \<^verbatim>\<open>recieve_zmq_message\<close> rejects a message with the short
  message error if and only if it is shorter than \<open>32 + 6 + 1 + 16 = 55\<close> bytes; every
  message of at least 55 bytes gets past it (the result is not an error).
\<close>

theorem length_check_threshold:
  "(recieve_zmq_message u g n (Inr msg :: 'e + byte list) = Inl (ShortMessage (length msg)))
     = (length msg < 32 + 6 + 1 + 16) \<and>
   isl (recieve_zmq_message u g n (Inr msg :: 'e + byte list)) = (length msg < 32 + 6 + 1 + 16)"
proof (cases "length msg < 55")
  case True
  then show ?thesis by (simp add: decode_short)
next
  case False
  then have "\<not> isl (recieve_zmq_message u g n (Inr msg :: 'e + byte list))"
    by (simp add: decode_long)
  with False show ?thesis by auto
qed

text \<open>
  C7. A message shorter than the minimum the code requires (55 bytes, so a message of 39
  bytes too) gets the short message error before the reader is created, no registration is
  returned, and the turn of the ingest loop leaves the table as it was, whatever the
  registration manager does.
\<close>

theorem short_message_leaves_table:
  "length msg < 32 + 6 + 1 + 16 \<Longrightarrow>
     recieve_zmq_message u g n (Inr msg :: 'e + byte list) = Inl (ShortMessage (length msg)) \<and>
     get_zmq_updates_step isLive add (recieve_zmq_message u g n) table
       (Inr msg :: 'e + byte list) = table \<and>
     get_zmq_updates isLive add (recieve_zmq_message u g n) table
       [Inr msg :: 'e + byte list] = table"
  by (simp add: get_zmq_updates_def get_zmq_updates_step_def decode_short)

theorem short_message_leaves_table_witness:
  "length (replicate 39 (0 :: byte)) < 32 + 6 + 1 + 16 \<and>
   recieve_zmq_message id id example_NewRegistration
       (Inr (replicate 39 0) :: unit + byte list) =
     Inl (ShortMessage 39) \<and>
   get_zmq_updates_step (PhantomIsLive example_phantomAddress)
       (AddRegistration example_phantomAddress)
       (recieve_zmq_message id id example_NewRegistration) [zero_registration]
       (Inr (replicate 39 0) :: unit + byte list) =
     [zero_registration]"
  using short_message_leaves_table [where ?'e = unit, of "replicate 39 0" id id
      example_NewRegistration "PhantomIsLive example_phantomAddress"
      "AddRegistration example_phantomAddress" "[zero_registration]"]
  by simp

subsection \<open>The ingest loop and the table\<close>

lemma step_live:
  "decode recv = Inr (Some reg) \<Longrightarrow> isLive table reg \<Longrightarrow>
   get_zmq_updates_step isLive add decode table recv = table"
  by (simp add: get_zmq_updates_step_def)

lemma step_distinct:
  "distinct (map pa table) \<Longrightarrow>
   distinct (map pa
     (get_zmq_updates_step (PhantomIsLive pa) (AddRegistration pa) decode table recv))"
  by (auto simp: get_zmq_updates_step_def PhantomIsLive_def AddRegistration_def
           split: sum.splits option.splits)

lemma loop_distinct:
  "distinct (map pa table) \<Longrightarrow>
   distinct (map pa
     (get_zmq_updates (PhantomIsLive pa) (AddRegistration pa) decode table recvs))"
  unfolding get_zmq_updates_def
  by (induction recvs arbitrary: table) (simp_all add: step_distinct)

lemma step_fresh:
  "decode recv = Inr (Some reg) \<Longrightarrow> \<not> PhantomIsLive pa table reg \<Longrightarrow>
   get_zmq_updates_step (PhantomIsLive pa) (AddRegistration pa) decode table recv =
     table @ [reg]"
  by (simp add: get_zmq_updates_step_def PhantomIsLive_def AddRegistration_def)

lemma live_after_add: "PhantomIsLive pa (table @ [reg]) reg"
  by (simp add: PhantomIsLive_def)

text \<open>
  C2. With the table of the specification: the ingest loop keeps the phantom addresses of
  the table distinct over any sequence of messages; a message that decodes to a
  registration whose phantom address is not live adds exactly that registration, and the
  same message once more leaves the table as it is; a message for a live phantom address
  leaves the table as it is.
\<close>

theorem ingest_phantom_unique:
  "(distinct (map pa table) \<longrightarrow> distinct (map pa (ingest pa u g n table recvs))) \<and>
   (recieve_zmq_message u g n recv = Inr (Some reg) \<and> \<not> PhantomIsLive pa table reg \<longrightarrow>
      ingest pa u g n table [recv] = table @ [reg] \<and>
      ingest pa u g n table [recv, recv] = table @ [reg]) \<and>
   (recieve_zmq_message u g n recv = Inr (Some reg) \<and> PhantomIsLive pa table reg \<longrightarrow>
      ingest pa u g n table [recv] = table)"
proof (intro conjI impI)
  assume "distinct (map pa table)"
  then show "distinct (map pa (ingest pa u g n table recvs))"
    by (simp add: ingest_def loop_distinct)
next
  assume a: "recieve_zmq_message u g n recv = Inr (Some reg) \<and> \<not> PhantomIsLive pa table reg"
  then show "ingest pa u g n table [recv] = table @ [reg]"
    by (simp add: ingest_def get_zmq_updates_def step_fresh)
  from a show "ingest pa u g n table [recv, recv] = table @ [reg]"
    by (simp add: ingest_def get_zmq_updates_def step_fresh step_live live_after_add)
next
  assume "recieve_zmq_message u g n recv = Inr (Some reg) \<and> PhantomIsLive pa table reg"
  then show "ingest pa u g n table [recv] = table"
    by (simp add: ingest_def get_zmq_updates_def step_live)
qed

theorem ingest_phantom_unique_witness:
  "distinct (map example_phantomAddress []) \<and>
   distinct (map example_phantomAddress
     (ingest example_phantomAddress id id example_NewRegistration []
        [zero_message, zero_message])) \<and>
   recieve_zmq_message id id example_NewRegistration zero_message =
     Inr (Some zero_registration) \<and>
   \<not> PhantomIsLive example_phantomAddress [] zero_registration \<and>
   ingest example_phantomAddress id id example_NewRegistration [] [zero_message] =
     [zero_registration] \<and>
   ingest example_phantomAddress id id example_NewRegistration []
       [zero_message, zero_message] =
     [zero_registration] \<and>
   PhantomIsLive example_phantomAddress [zero_registration] zero_registration \<and>
   ingest example_phantomAddress id id example_NewRegistration [zero_registration]
       [zero_message] =
     [zero_registration]"
proof -
  have d: "recieve_zmq_message id id example_NewRegistration zero_message =
      Inr (Some zero_registration)"
    unfolding zero_message_def zero_registration_def example_NewRegistration_def by code_simp
  have fresh: "\<not> PhantomIsLive example_phantomAddress [] zero_registration"
    by (simp add: PhantomIsLive_def)
  have live: "PhantomIsLive example_phantomAddress [zero_registration] zero_registration"
    by (simp add: PhantomIsLive_def)
  have e: "distinct (map example_phantomAddress [])"
    by simp
  note first = ingest_phantom_unique [of example_phantomAddress "[]" id id
      example_NewRegistration "[zero_message, zero_message]" zero_message zero_registration]
  note second = ingest_phantom_unique [of example_phantomAddress "[zero_registration]" id id
      example_NewRegistration "[]" zero_message zero_registration]
  from first e have 1: "distinct (map example_phantomAddress
     (ingest example_phantomAddress id id example_NewRegistration []
        [zero_message, zero_message]))"
    by blast
  from first d fresh
  have 2: "ingest example_phantomAddress id id example_NewRegistration [] [zero_message] =
      [zero_registration]"
    and 3: "ingest example_phantomAddress id id example_NewRegistration []
       [zero_message, zero_message] = [zero_registration]"
    by simp_all
  from second d live
  have 4: "ingest example_phantomAddress id id example_NewRegistration [zero_registration]
       [zero_message] = [zero_registration]"
    by blast
  from e 1 d fresh 2 3 live 4 show ?thesis
    by blast
qed

section \<open>Properties of the dispatcher\<close>



section \<open>Properties of the detector\<close>

subsection \<open>The capture filter\<close>

lemma foldl_clauses:
  "foldl (\<lambda>out entry. out @ sep @ entry) acc es = acc @ concat (map (\<lambda>e. sep @ e) es)"
  by (induction es arbitrary: acc) simp_all

text \<open>
  C10. \<^verbatim>\<open>generateFilters\<close> returns the empty string for the empty exclusion list, and for a
  list with first address \<open>a\<close> and remaining addresses \<open>rest\<close> it returns
  \<^verbatim>\<open>tcp and not src a\<close> followed, in order, by \<^verbatim>\<open> and not src e\<close> for every \<open>e\<close> of
  \<open>rest\<close>: the filter of a non-empty list begins with the \<^verbatim>\<open>tcp\<close> restriction.
\<close>

theorem generateFilters_shape:
  "generateFilters [] = '''' \<and>
   generateFilters (a # rest) =
     ''tcp and not src '' @ a @ concat (map (\<lambda>e. '' and not src '' @ e) rest)"
  by (simp add: generateFilters_def foldl_clauses [where sep = "'' and not src ''", simplified])

subsection \<open>The tag scan\<close>


lemma checkForTags_loop_returns:
  "NetworkLayer packet = Some flow \<Longrightarrow> ApplicationLayer packet = Some pl \<Longrightarrow>
   \<exists>k. checkForTags_loop tags det packet =
     (Returned, det\<lparr>Logger := Logger det @
        replicate k (Println [''confirmed'', String (Src flow), ''->'', String (Dst flow)])\<rparr>)"
proof (induction tags arbitrary: det)
  case Nil
  have "checkForTags_loop [] det packet = (Returned, det\<lparr>Logger := Logger det @
        replicate 0 (Println [''confirmed'', String (Src flow), ''->'', String (Dst flow)])\<rparr>)"
    by simp
  then show ?case by blast
next
  case (Cons tag tags)
  let ?c = "Println [''confirmed'', String (Src flow), ''->'', String (Dst flow)]"
  show ?case
  proof (cases "sublist tag pl")
    case True
    from Cons.IH [OF Cons.prems, of "det\<lparr>Logger := Logger det @ [?c]\<rparr>"]
    obtain k where "checkForTags_loop tags (det\<lparr>Logger := Logger det @ [?c]\<rparr>) packet =
       (Returned, det\<lparr>Logger := Logger det @ replicate (Suc k) ?c\<rparr>)"
      by auto
    with True Cons.prems show ?thesis
      by (intro exI [of _ "Suc k"]) simp
  next
    case False
    from Cons.IH [OF Cons.prems, of det] obtain k where
      "checkForTags_loop tags det packet =
         (Returned, det\<lparr>Logger := Logger det @ replicate k ?c\<rparr>)"
      by blast
    with False Cons.prems show ?thesis
      by (intro exI [of _ k]) simp
  qed
qed

lemma checkForTags_returns:
  assumes "NetworkLayer packet = Some flow"
    and "ApplicationLayer packet \<noteq> None \<or> Tags det = []"
  shows "\<exists>k. checkForTags det packet =
     (Returned, det\<lparr>Logger := Logger det @
        replicate k (Println [''confirmed'', String (Src flow), ''->'', String (Dst flow)])\<rparr>)"
proof (cases "Tags det = []")
  case True
  then have "checkForTags det packet = (Returned, det\<lparr>Logger := Logger det @
        replicate 0 (Println [''confirmed'', String (Src flow), ''->'', String (Dst flow)])\<rparr>)"
    by (simp add: checkForTags_def)
  then show ?thesis by blast
next
  case False
  with assms obtain pl where "ApplicationLayer packet = Some pl" by auto
  with assms(1) show ?thesis
    unfolding checkForTags_def by (rule checkForTags_loop_returns)
qed

subsection \<open>One frame\<close>



lemma handlePacket_reaches_match:
  assumes "NetworkLayer packet = Some flow" and "Layer_TCP packet = Some tcp"
    and "ApplicationLayer packet \<noteq> None \<or> Tags det = []"
  shows "\<exists>k. handlePacket det packet =
     (Returned, (classify det packet (Dst flow))\<lparr>Logger :=
        Logger (classify det packet (Dst flow)) @
        replicate k (Println [''confirmed'', String (Src flow), ''->'', String (Dst flow)]) @
        (if IsRegistered det
              \<lparr>arg_src = String (Dst flow), arg_dst = String (Src flow),
               arg_dstPort = DstPort tcp\<rparr>
         then [Println [String (Src flow), ''->'', String (Dst flow)]] else [])\<rparr>)"
proof -
  let ?d1 = "classify det packet (Dst flow)"
  have t: "Tags ?d1 = Tags det" and r: "IsRegistered ?d1 = IsRegistered det"
    by (simp_all add: classify_def Let_def)
  from assms(3) t have "ApplicationLayer packet \<noteq> None \<or> Tags ?d1 = []" by simp
  from checkForTags_returns [OF assms(1) this] obtain k where
    k: "checkForTags ?d1 packet = (Returned, ?d1\<lparr>Logger := Logger ?d1 @
        replicate k (Println [''confirmed'', String (Src flow), ''->'', String (Dst flow)])\<rparr>)"
    by blast
  show ?thesis
    by (rule exI [of _ k])
      (simp add: handlePacket_def Let_def assms(1,2) k r forwardPacket_def)
qed

text \<open>
  C4. The claim: \<^verbatim>\<open>handlePacket\<close> never panics, also on a frame without a network layer and
  on a TCP frame without payload. On \<open>arp_frame\<close> the call of line 92 is on a \<^verbatim>\<open>nil\<close>
  network layer; on \<open>syn_frame\<close>, with a tag configured, the call of line 124 is on a
  \<^verbatim>\<open>nil\<close> application layer; and the capture loop ends at such a frame, so the frame after
  it, which alone is handled without a panic, is never handled.
\<close>

theorem handlePacket_panics:
  "handlePacket example_detector arp_frame = (Panicked, example_detector) \<and>
   fst (handlePacket example_detector syn_frame) = Panicked \<and>
   fst (Run_loop example_detector [syn_frame, data_frame]) = Panicked \<and>
   fst (Run_loop example_detector [data_frame]) = Returned"
  by (simp add: example_frames handlePacket_def classify_def checkForTags_def
      forwardPacket_def Let_def)



text \<open>
  C9. For a frame that reaches the match check (it has a network layer and a TCP layer, and
  the tag scan reads a payload or there is no tag), \<^verbatim>\<open>handlePacket\<close> returns, and the frame
  is forwarded exactly when the callback holds of the arguments in which the parameter
  declared \<^verbatim>\<open>src\<close> is the destination address of the frame and the parameter declared
  \<^verbatim>\<open>dst\<close> is its source address, with the destination port of the TCP layer.
\<close>

theorem match_check_arguments_transposed:
  assumes "NetworkLayer packet = Some flow" and "Layer_TCP packet = Some tcp"
    and "ApplicationLayer packet \<noteq> None \<or> Tags det = []"
  shows "fst (handlePacket det packet) = Returned \<and>
         (Println [String (Src flow), ''->'', String (Dst flow)]
            \<in> set (drop (length (Logger det)) (Logger (snd (handlePacket det packet))))) =
         IsRegistered det
           \<lparr>arg_src = String (Dst flow), arg_dst = String (Src flow),
            arg_dstPort = DstPort tcp\<rparr>"
proof -
  from handlePacket_reaches_match [OF assms] obtain k where
    "handlePacket det packet =
     (Returned, (classify det packet (Dst flow))\<lparr>Logger :=
        Logger (classify det packet (Dst flow)) @
        replicate k (Println [''confirmed'', String (Src flow), ''->'', String (Dst flow)]) @
        (if IsRegistered det
              \<lparr>arg_src = String (Dst flow), arg_dst = String (Src flow),
               arg_dstPort = DstPort tcp\<rparr>
         then [Println [String (Src flow), ''->'', String (Dst flow)]] else [])\<rparr>)"
    by blast
  then show ?thesis
    by (simp add: classify_def Let_def)
qed

theorem match_check_arguments_transposed_witness:
  "NetworkLayer data_frame = Some example_flow \<and>
   Layer_TCP data_frame = Some \<lparr>DstPort = 443\<rparr> \<and>
   ApplicationLayer data_frame = Some ''a tag here'' \<and>
   String (Dst example_flow) = ''10.0.0.5'' \<and>
   String (Src example_flow) = ''192.0.2.7'' \<and>
   fst (handlePacket example_detector data_frame) = Returned \<and>
   (Println [''192.0.2.7'', ''->'', ''10.0.0.5'']
      \<in> set (drop (length (Logger example_detector))
                (Logger (snd (handlePacket example_detector data_frame))))) =
   IsRegistered example_detector
     \<lparr>arg_src = ''10.0.0.5'', arg_dst = ''192.0.2.7'', arg_dstPort = 443\<rparr> \<and>
   \<not> IsRegistered example_detector
     \<lparr>arg_src = ''10.0.0.5'', arg_dst = ''192.0.2.7'', arg_dstPort = 443\<rparr>"
  using match_check_arguments_transposed [of data_frame example_flow "\<lparr>DstPort = 443\<rparr>"
      example_detector]
  by (simp add: example_frames)

end
